theory Spec2Isabelle
  imports Complex_Main
begin

section \<open>JavaScript numbers\<close>

text \<open>
  A JavaScript number is an IEEE-754 double. The component divides by a difference of two
  widths that can be zero (lines 176 and 230 of VueHorizontalScrollbar.vue), so the three
  non-finite values are part of the model. Finite values are taken as exact reals:
  rounding and overflow of finite results are not modelled. The model has one zero, and a
  zero divisor counts as \<open>+0\<close>; the only unguarded divisor of the source is
  \<open>scrollbarWidth - thumbWidth\<close> with \<open>scrollbarWidth\<close> an \<open>offsetWidth\<close> (never
  \<open>-0\<close>), and in IEEE arithmetic \<open>x - y\<close> is \<open>-0\<close> only for \<open>x = -0\<close>.
\<close>

datatype jsnum = Num real | PosInf | NegInf | NaN

fun js_add :: "jsnum \<Rightarrow> jsnum \<Rightarrow> jsnum" where
  "js_add (Num a) (Num b) = Num (a + b)"
| "js_add NaN _ = NaN"
| "js_add _ NaN = NaN"
| "js_add PosInf NegInf = NaN"
| "js_add NegInf PosInf = NaN"
| "js_add PosInf _ = PosInf"
| "js_add _ PosInf = PosInf"
| "js_add NegInf _ = NegInf"
| "js_add _ NegInf = NegInf"

definition inf_of_sign :: "bool \<Rightarrow> jsnum" where
  "inf_of_sign positive = (if positive then PosInf else NegInf)"

fun js_mul :: "jsnum \<Rightarrow> jsnum \<Rightarrow> jsnum" where
  "js_mul (Num a) (Num b) = Num (a * b)"
| "js_mul NaN _ = NaN"
| "js_mul _ NaN = NaN"
| "js_mul PosInf (Num b) = (if b = 0 then NaN else inf_of_sign (0 < b))"
| "js_mul NegInf (Num b) = (if b = 0 then NaN else inf_of_sign (b < 0))"
| "js_mul (Num a) PosInf = (if a = 0 then NaN else inf_of_sign (0 < a))"
| "js_mul (Num a) NegInf = (if a = 0 then NaN else inf_of_sign (a < 0))"
| "js_mul PosInf PosInf = PosInf"
| "js_mul NegInf NegInf = PosInf"
| "js_mul PosInf NegInf = NegInf"
| "js_mul NegInf PosInf = NegInf"

fun js_div :: "jsnum \<Rightarrow> jsnum \<Rightarrow> jsnum" where
  "js_div (Num a) (Num b) =
     (if b = 0 then (if a = 0 then NaN else inf_of_sign (0 < a)) else Num (a / b))"
| "js_div NaN _ = NaN"
| "js_div _ NaN = NaN"
| "js_div PosInf (Num b) = inf_of_sign (0 \<le> b)"
| "js_div NegInf (Num b) = inf_of_sign (b < 0)"
| "js_div (Num a) _ = Num 0"
| "js_div _ _ = NaN"

text \<open>\<open>Math.min\<close> and \<open>Math.max\<close>: \<open>NaN\<close> as soon as one argument is \<open>NaN\<close>.\<close>

fun Math_min :: "jsnum \<Rightarrow> jsnum \<Rightarrow> jsnum" where
  "Math_min (Num a) (Num b) = Num (min a b)"
| "Math_min NaN _ = NaN"
| "Math_min _ NaN = NaN"
| "Math_min NegInf _ = NegInf"
| "Math_min _ NegInf = NegInf"
| "Math_min PosInf y = y"
| "Math_min x PosInf = x"

fun Math_max :: "jsnum \<Rightarrow> jsnum \<Rightarrow> jsnum" where
  "Math_max (Num a) (Num b) = Num (max a b)"
| "Math_max NaN _ = NaN"
| "Math_max _ NaN = NaN"
| "Math_max PosInf _ = PosInf"
| "Math_max _ PosInf = PosInf"
| "Math_max NegInf y = y"
| "Math_max x NegInf = x"

fun is_finite :: "jsnum \<Rightarrow> bool" where
  "is_finite (Num _) = True"
| "is_finite _ = False"

text \<open>\<open>x || d\<close> on a finite number: \<open>0\<close> is the only falsy one.\<close>

definition js_or :: "real \<Rightarrow> real \<Rightarrow> real" where
  "js_or x d = (if x = 0 then d else x)"

section \<open>The page: elements, events, listeners\<close>

text \<open>
  Elements live in a store indexed by identity, since the target, the content, the track
  and the thumb are references that may alias. The record keeps the metrics the component
  reads. \<open>clientWidth\<close>, \<open>scrollWidth\<close> and \<open>offsetWidth\<close> are integers in the DOM and
  \<open>scrollLeft\<close>, the rectangle and pointer coordinates are finite doubles; all are reals
  here.
\<close>

type_synonym elem_id = nat

record element =
  el_scrollLeft :: real
  clientWidth :: real
  scrollWidth :: real
  offsetWidth :: real
  rect_left :: real

text \<open>
  Assigning \<open>element.scrollLeft = v\<close>: CSSOM View normalises a non-finite \<open>v\<close> to \<open>0\<close>.
  The store keeps the offset the code asked for; the browser's own clamping of it to the
  scrollable range of the element is outside the source.
\<close>

fun normalize_non_finite :: "jsnum \<Rightarrow> real" where
  "normalize_non_finite (Num x) = x"
| "normalize_non_finite _ = 0"

definition set_scrollLeft :: "(elem_id \<Rightarrow> element) \<Rightarrow> elem_id \<Rightarrow> jsnum \<Rightarrow> (elem_id \<Rightarrow> element)" where
  "set_scrollLeft st t v = st(t := (st t)\<lparr>el_scrollLeft := normalize_non_finite v\<rparr>)"

datatype mouse_event = MouseEvent (clientX: real) (target: elem_id)

text \<open>A touch event carries the \<open>clientX\<close> of each of its \<open>touches\<close>.\<close>

datatype touch_event = TouchEvent (touches: "real list")

datatype keyboard_event = KeyboardEvent (key: string)

datatype dom_event = MouseEv mouse_event | TouchEv touch_event | KeyEv keyboard_event
  | NewMouseUp | NewTouchEnd

datatype js_error =
    ElementNotFound string
  | TargetOrContentNotFound
  | TypeError
  | Thrown string

datatype 'a outcome = Returns 'a | Throws js_error

text \<open>
  A selector is a query string or a resolver function; the resolver is modelled by what
  its call does (a falsy return value is \<open>None\<close>). Any other value falls through both
  \<open>typeof\<close> tests of \<open>getElement\<close>.
\<close>

datatype selector =
    SelString string
  | SelFunction "elem_id option outcome"
  | SelOther

record scroll_info =
  si_scrollLeft :: real
  si_maxScroll :: real
  si_scrollPercent :: real

datatype notification =
    Ready
  | Error js_error
  | Scroll scroll_info
  | Click mouse_event
  | DragStart dom_event
  | DragEnd dom_event
  | Keydown keyboard_event

datatype console_entry = Warn string | ConsoleError js_error

datatype event_target = Document | Element elem_id

datatype handler =
    ThrottledHandleScroll
  | HandleKeyDown
  | HandleMouseMove
  | HandleMouseUp
  | HandleTouchMove
  | HandleTouchEnd

type_synonym listener = "event_target \<times> string \<times> handler"

text \<open>
  \<open>addEventListener\<close> appends unless the same (target, type, callback) is already
  listed; \<open>removeEventListener\<close> removes it and is silent when it is absent.
\<close>

definition addEventListener :: "listener \<Rightarrow> listener list \<Rightarrow> listener list" where
  "addEventListener l ls = (if l \<in> set ls then ls else ls @ [l])"

definition removeEventListener :: "listener \<Rightarrow> listener list \<Rightarrow> listener list" where
  "removeEventListener l ls = removeAll l ls"

section \<open>The component\<close>

record props =
  targetSelector :: selector
  contentSelector :: selector
  autoShow :: bool
  minScrollDistance :: real
  enableKeyboard :: bool
  scrollStep :: real
  minThumbWidth :: real
  throttleDelay :: real
  disabled :: bool

text \<open>
  What \<open>thumbStyle\<close> returns (lines 59 to 62). The source formats both numbers as
  \<open>`${n}px`\<close> and reads the width back with \<open>Number.parseFloat\<close>, which returns the
  number formatted: the record holds the numbers.
\<close>

record thumb_style =
  width :: real
  left :: real

text \<open>
  \<open>thumbStyle\<close> is a Vue \<open>computed\<close>: it keeps the value of its last evaluation and
  evaluates again only after a ref or prop that this evaluation read has changed. It read
  \<open>scrollLeft\<close> only on the branch \<open>maxScroll > 0\<close>. The metrics of the elements are
  plain DOM properties: a change of theirs does not make it evaluate again.
\<close>

record computed_thumbStyle =
  cached :: thumb_style
  tracks_scrollLeft :: bool

text \<open>
  The refs and the \<open>let\<close> of the script (lines 28 to 43) and the state of the
  \<open>computed\<close> (\<open>None\<close> when it has to evaluate at its next read), then the world the
  script acts on: the element store, \<open>document.querySelector\<close>, the registered
  listeners, the notifications emitted, the console, and the events whose default was
  prevented. \<open>resizeObserver\<close> is \<open>None\<close> for \<open>null\<close>, else the elements it observes.
\<close>

record component =
  props :: props
  scrollLeft :: real
  maxScroll :: real
  scrollPercent :: real
  showScrollbar :: bool
  isVisible :: bool
  customScrollbarRef :: "elem_id option"
  customScrollbarThumbRef :: "elem_id option"
  isDragging :: bool
  dragStartX :: real
  dragStartScrollLeft :: real
  targetElement :: "elem_id option"
  contentElement :: "elem_id option"
  resizeObserver :: "elem_id list option"
  thumbStyle_cache :: "computed_thumbStyle option"
  page :: "elem_id \<Rightarrow> element"
  querySelector :: "string \<Rightarrow> elem_id option outcome"
  listeners :: "listener list"
  emitted :: "notification list"
  console :: "console_entry list"
  defaultPrevented :: "dom_event list"

definition emit :: "notification \<Rightarrow> component \<Rightarrow> component" where
  "emit n s = s\<lparr>emitted := emitted s @ [n]\<rparr>"

definition preventDefault :: "dom_event \<Rightarrow> component \<Rightarrow> component" where
  "preventDefault e s = s\<lparr>defaultPrevented := defaultPrevented s @ [e]\<rparr>"

text \<open>
  Assigning to a ref or prop that the last evaluation of \<open>thumbStyle\<close> read: when the
  value changes, the \<open>computed\<close> has to evaluate again.
\<close>

definition invalidate :: "bool \<Rightarrow> component \<Rightarrow> component" where
  "invalidate changed s =
     s\<lparr>thumbStyle_cache := (if changed then None else thumbStyle_cache s)\<rparr>"

definition scrollLeft_tracked :: "component \<Rightarrow> bool" where
  "scrollLeft_tracked s =
     (case thumbStyle_cache s of None \<Rightarrow> False | Some c \<Rightarrow> tracks_scrollLeft c)"

subsection \<open>Thumb geometry (lines 45 to 63)\<close>

text \<open>
  The two expressions of \<open>thumbStyle\<close>, as functions of the numbers they read. Both
  divisions are guarded in the source (\<open>|| 1\<close> and \<open>maxScroll > 0\<close>), so they stay
  in the reals.
\<close>

definition thumbWidth :: "real \<Rightarrow> real \<Rightarrow> real \<Rightarrow> real \<Rightarrow> real" where
  "thumbWidth minThumb targetWidth contentWidth scrollbarWidth =
     max minThumb ((targetWidth / contentWidth) * scrollbarWidth)"

definition thumbPosition :: "real \<Rightarrow> real \<Rightarrow> real \<Rightarrow> real \<Rightarrow> real" where
  "thumbPosition sl ms scrollbarWidth tw =
     (if ms > 0 then (sl / ms) * (scrollbarWidth - tw) else 0)"

text \<open>
  Lines 46 to 48: the three widths \<open>thumbStyle\<close> reads, each with its fallback for a
  missing element or a falsy (zero) width.
\<close>

definition targetWidth_of :: "component \<Rightarrow> real" where
  "targetWidth_of s =
     (case targetElement s of None \<Rightarrow> 0 | Some t \<Rightarrow> js_or (clientWidth (page s t)) 0)"

definition contentWidth_of :: "component \<Rightarrow> real" where
  "contentWidth_of s =
     (case contentElement s of None \<Rightarrow> 1 | Some c \<Rightarrow> js_or (scrollWidth (page s c)) 1)"

definition scrollbarWidth_of :: "component \<Rightarrow> real" where
  "scrollbarWidth_of s =
     (case customScrollbarRef s of None \<Rightarrow> 0 | Some b \<Rightarrow> js_or (offsetWidth (page s b)) 0)"

text \<open>One evaluation of the getter of \<open>thumbStyle\<close>, on the page as it is.\<close>

definition thumbStyle :: "component \<Rightarrow> thumb_style" where
  "thumbStyle s =
     (let tw = thumbWidth (minThumbWidth (props s)) (targetWidth_of s) (contentWidth_of s)
                 (scrollbarWidth_of s);
          tp = thumbPosition (scrollLeft s) (maxScroll s) (scrollbarWidth_of s) tw
      in \<lparr>width = tw, left = tp\<rparr>)"

text \<open>
  Reading \<open>thumbStyle.value\<close>, as lines 174 and 228 and the template do: the kept value
  if there is one, else an evaluation, which is kept.
\<close>

definition thumbStyle_value :: "component \<Rightarrow> thumb_style \<times> component" where
  "thumbStyle_value s =
     (case thumbStyle_cache s of
        Some c \<Rightarrow> (cached c, s)
      | None \<Rightarrow>
          (thumbStyle s,
           s\<lparr>thumbStyle_cache :=
               Some \<lparr>cached = thumbStyle s, tracks_scrollLeft = (maxScroll s > 0)\<rparr>\<rparr>))"

subsection \<open>Scroll state (lines 131 to 165)\<close>

definition updateScrollInfo :: "component \<Rightarrow> component" where
  "updateScrollInfo s =
     (case (targetElement s, contentElement s) of
        (Some t, Some c) \<Rightarrow>
          (let newScrollLeft = el_scrollLeft (page s t);
               newMaxScroll = max 0 (scrollWidth (page s c) - clientWidth (page s t));
               newScrollPercent =
                 (if newMaxScroll > 0 then (newScrollLeft / newMaxScroll) * 100 else 0);
               s1 = (invalidate (newScrollLeft \<noteq> scrollLeft s \<and> scrollLeft_tracked s) s)
                      \<lparr>scrollLeft := newScrollLeft\<rparr>;
               s2 = (invalidate (newMaxScroll \<noteq> maxScroll s1) s1)\<lparr>maxScroll := newMaxScroll\<rparr>;
               s3 = s2\<lparr>scrollPercent := newScrollPercent\<rparr>;
               s4 = (if autoShow (props s3)
                     then s3\<lparr>showScrollbar := (maxScroll s3 > minScrollDistance (props s3))\<rparr>
                     else s3\<lparr>showScrollbar := True\<rparr>)
           in emit (Scroll \<lparr>si_scrollLeft = newScrollLeft, si_maxScroll = newMaxScroll,
                             si_scrollPercent = newScrollPercent\<rparr>) s4)
      | _ \<Rightarrow> s)"

text \<open>Line 159: the value that line 160 assigns to the target.\<close>

definition clampedPosition :: "real \<Rightarrow> jsnum \<Rightarrow> jsnum" where
  "clampedPosition ms position = Math_max (Num 0) (Math_min (Num ms) position)"

definition scrollToPosition :: "jsnum \<Rightarrow> component \<Rightarrow> component" where
  "scrollToPosition position s =
     (case targetElement s of
        None \<Rightarrow> s
      | Some t \<Rightarrow> s\<lparr>page := set_scrollLeft (page s) t (clampedPosition (maxScroll s) position)\<rparr>)"

definition scrollToEnd :: "component \<Rightarrow> component" where
  "scrollToEnd s = scrollToPosition (Num (maxScroll s)) s"

subsection \<open>Observation (lines 65 to 129)\<close>

text \<open>
  The function handed to \<open>throttle\<close>. The throttle decides when this body runs, not what
  it does; the timing is not modelled.
\<close>

definition throttledHandleScroll :: "component \<Rightarrow> component" where
  "throttledHandleScroll s = (if \<not> isDragging s then updateScrollInfo s else s)"

text \<open>The callback given to \<open>new ResizeObserver\<close> at line 118.\<close>

definition resizeObserverCallback :: "component \<Rightarrow> component" where
  "resizeObserverCallback s = updateScrollInfo s"

text \<open>
  \<open>getElement\<close> returns the element or \<open>null\<close>, and has emitted and logged on the way.
  \<open>document.querySelector\<close> and the resolver may throw; the \<open>catch\<close> turns that into
  an \<open>error\<close> notification and \<open>null\<close>.
\<close>

definition getElement :: "selector \<Rightarrow> component \<Rightarrow> elem_id option \<times> component" where
  "getElement sel s =
     (case sel of
        SelString q \<Rightarrow>
          (case querySelector s q of
             Returns (Some el) \<Rightarrow> (Some el, s)
           | Returns None \<Rightarrow>
               (None, emit (Error (ElementNotFound q)) (s\<lparr>console := console s @ [Warn q]\<rparr>))
           | Throws err \<Rightarrow>
               (None, emit (Error err) (s\<lparr>console := console s @ [ConsoleError err]\<rparr>)))
      | SelFunction call \<Rightarrow>
          (case call of
             Returns r \<Rightarrow> (r, s)
           | Throws err \<Rightarrow>
               (None, emit (Error err) (s\<lparr>console := console s @ [ConsoleError err]\<rparr>)))
      | SelOther \<Rightarrow> (None, s))"

definition setupResizeObserver :: "component \<Rightarrow> component" where
  "setupResizeObserver s =
     (case (targetElement s, contentElement s) of
        (Some t, Some c) \<Rightarrow> s\<lparr>resizeObserver := Some [t, c]\<rparr>
      | _ \<Rightarrow> s)"

definition setupScrollListener :: "component \<Rightarrow> component" where
  "setupScrollListener s =
     (case targetElement s of
        None \<Rightarrow> s
      | Some t \<Rightarrow>
          s\<lparr>listeners := addEventListener (Element t, ''scroll'', ThrottledHandleScroll)
                            (listeners s)\<rparr>)"

text \<open>The body of \<open>initializeTarget\<close>, as it runs after \<open>await nextTick()\<close>.\<close>

definition initializeTarget :: "component \<Rightarrow> component" where
  "initializeTarget s =
     (let (t, s1) = getElement (targetSelector (props s)) s;
          s2 = (invalidate (t \<noteq> targetElement s1) s1)\<lparr>targetElement := t\<rparr>;
          (c, s3) = getElement (contentSelector (props s2)) s2;
          s4 = (invalidate (c \<noteq> contentElement s3) s3)\<lparr>contentElement := c\<rparr>
      in if targetElement s4 = None \<or> contentElement s4 = None
         then emit (Error TargetOrContentNotFound)
                (s4\<lparr>console := console s4 @ [ConsoleError TargetOrContentNotFound]\<rparr>)
         else emit Ready
                ((updateScrollInfo (setupResizeObserver (setupScrollListener s4)))
                   \<lparr>isVisible := True\<rparr>))"

subsection \<open>Click, drag and keyboard (lines 167 to 283)\<close>

text \<open>Line 176: the offset a click asks for. The divisor is not guarded.\<close>

definition targetScrollLeft :: "real \<Rightarrow> real \<Rightarrow> real \<Rightarrow> real \<Rightarrow> jsnum" where
  "targetScrollLeft clickX scrollbarWidth tw ms =
     js_mul (js_div (Num (clickX - tw / 2)) (Num (scrollbarWidth - tw))) (Num ms)"

definition handleScrollbarClick :: "mouse_event \<Rightarrow> component \<Rightarrow> component" where
  "handleScrollbarClick e s =
     (case (customScrollbarRef s, customScrollbarThumbRef s) of
        (Some bar, Some thumb) \<Rightarrow>
          if disabled (props s) then s
          else if target e = thumb then s
          else
            (let clickX = clientX e - rect_left (page s bar);
                 scrollbarWidth = offsetWidth (page s bar);
                 (style, s1) = thumbStyle_value s;
                 tw = width style
             in emit (Click e)
                  (scrollToPosition (targetScrollLeft clickX scrollbarWidth tw (maxScroll s1)) s1))
      | _ \<Rightarrow> s)"

definition startDragging :: "real \<Rightarrow> component \<Rightarrow> component" where
  "startDragging x s =
     s\<lparr>isDragging := True, dragStartX := x, dragStartScrollLeft := scrollLeft s\<rparr>"

definition handleThumbMouseDown :: "mouse_event \<Rightarrow> component \<Rightarrow> component" where
  "handleThumbMouseDown e s =
     (if disabled (props s) then s
      else
        (let s1 = startDragging (clientX e) s;
             s2 = s1\<lparr>listeners :=
                       addEventListener (Document, ''mouseup'', HandleMouseUp)
                         (addEventListener (Document, ''mousemove'', HandleMouseMove)
                            (listeners s1))\<rparr>
         in emit (DragStart (MouseEv e)) (preventDefault (MouseEv e) s2)))"

text \<open>
  \<open>e.touches[0].clientX\<close> throws a \<open>TypeError\<close> on an event without touches; nothing in
  the handlers catches it.
\<close>

definition handleThumbTouchStart :: "touch_event \<Rightarrow> component \<Rightarrow> js_error + component" where
  "handleThumbTouchStart e s =
     (if disabled (props s) then Inr s
      else
        (case touches e of
           [] \<Rightarrow> Inl TypeError
         | x # _ \<Rightarrow>
             (let s1 = startDragging x s;
                  s2 = s1\<lparr>listeners :=
                            addEventListener (Document, ''touchend'', HandleTouchEnd)
                              (addEventListener (Document, ''touchmove'', HandleTouchMove)
                                 (listeners s1))\<rparr>
              in Inr (emit (DragStart (TouchEv e)) (preventDefault (TouchEv e) s2)))))"

text \<open>Lines 230 and 231: the offset a drag asks for. The divisor is not guarded.\<close>

definition newScrollLeft :: "real \<Rightarrow> real \<Rightarrow> real \<Rightarrow> real \<Rightarrow> real \<Rightarrow> jsnum" where
  "newScrollLeft deltaX scrollbarWidth tw ms startScrollLeft =
     (let scrollRatio = js_div (Num deltaX) (Num (scrollbarWidth - tw))
      in js_add (Num startScrollLeft) (js_mul scrollRatio (Num ms)))"

definition updateDragPosition :: "real \<Rightarrow> component \<Rightarrow> component" where
  "updateDragPosition x s =
     (case customScrollbarRef s of
        None \<Rightarrow> s
      | Some bar \<Rightarrow>
          (let deltaX = x - dragStartX s;
               scrollbarWidth = offsetWidth (page s bar);
               (style, s1) = thumbStyle_value s;
               tw = width style
           in updateScrollInfo
                (scrollToPosition
                   (newScrollLeft deltaX scrollbarWidth tw (maxScroll s1) (dragStartScrollLeft s1))
                   s1)))"

definition handleMouseMove :: "mouse_event \<Rightarrow> component \<Rightarrow> component" where
  "handleMouseMove e s = (if \<not> isDragging s then s else updateDragPosition (clientX e) s)"

definition handleTouchMove :: "touch_event \<Rightarrow> component \<Rightarrow> js_error + component" where
  "handleTouchMove e s =
     (if \<not> isDragging s then Inr s
      else
        (case touches e of
           [] \<Rightarrow> Inl TypeError
         | x # _ \<Rightarrow> Inr (preventDefault (TouchEv e) (updateDragPosition x s))))"

definition stopDragging :: "component \<Rightarrow> component" where
  "stopDragging s = s\<lparr>isDragging := False\<rparr>"

definition handleMouseUp :: "component \<Rightarrow> component" where
  "handleMouseUp s =
     (let s1 = stopDragging s;
          s2 = s1\<lparr>listeners :=
                    removeEventListener (Document, ''mouseup'', HandleMouseUp)
                      (removeEventListener (Document, ''mousemove'', HandleMouseMove)
                         (listeners s1))\<rparr>
      in emit (DragEnd NewMouseUp) s2)"

definition handleTouchEnd :: "component \<Rightarrow> component" where
  "handleTouchEnd s =
     (let s1 = stopDragging s;
          s2 = s1\<lparr>listeners :=
                    removeEventListener (Document, ''touchend'', HandleTouchEnd)
                      (removeEventListener (Document, ''touchmove'', HandleTouchMove)
                         (listeners s1))\<rparr>
      in emit (DragEnd NewTouchEnd) s2)"

definition handleKeyDown :: "keyboard_event \<Rightarrow> component \<Rightarrow> component" where
  "handleKeyDown e s =
     (if \<not> enableKeyboard (props s) \<or> targetElement s = None \<or> disabled (props s) then s
      else
        (let (handled, s1) =
               (if key e = ''ArrowLeft''
                then (True, scrollToPosition (Num (scrollLeft s - scrollStep (props s))) s)
                else if key e = ''ArrowRight''
                then (True, scrollToPosition (Num (scrollLeft s + scrollStep (props s))) s)
                else if key e = ''Home''
                then (True, scrollToPosition (Num 0) s)
                else if key e = ''End''
                then (True, scrollToEnd s)
                else (False, s))
         in if handled then emit (Keydown e) (preventDefault (KeyEv e) s1) else s1))"

subsection \<open>Mounting and teardown (lines 285 to 311)\<close>

definition cleanup :: "component \<Rightarrow> component" where
  "cleanup s =
     (let s1 = (case targetElement s of
                  None \<Rightarrow> s
                | Some t \<Rightarrow>
                    s\<lparr>listeners :=
                        removeEventListener (Element t, ''scroll'', ThrottledHandleScroll)
                          (listeners s)\<rparr>);
          s2 = (case resizeObserver s1 of
                  None \<Rightarrow> s1
                | Some _ \<Rightarrow> s1\<lparr>resizeObserver := Some []\<rparr>)
      in s2\<lparr>listeners :=
              removeEventListener (Document, ''touchend'', HandleTouchEnd)
                (removeEventListener (Document, ''touchmove'', HandleTouchMove)
                   (removeEventListener (Document, ''mouseup'', HandleMouseUp)
                      (removeEventListener (Document, ''mousemove'', HandleMouseMove)
                         (removeEventListener (Document, ''keydown'', HandleKeyDown)
                            (listeners s2)))))\<rparr>)"

text \<open>
  The synchronous part of the \<open>onMounted\<close> hook: \<open>initializeTarget\<close> is started and
  suspends at its \<open>await\<close>, so its body is a later step of its own.
\<close>

definition onMounted :: "component \<Rightarrow> component" where
  "onMounted s =
     (if enableKeyboard (props s)
      then s\<lparr>listeners := addEventListener (Document, ''keydown'', HandleKeyDown) (listeners s)\<rparr>
      else s)"

definition onUnmounted :: "component \<Rightarrow> component" where
  "onUnmounted s = cleanup s"

subsection \<open>What Vue and the host do around the script\<close>

text \<open>
  A render of the template (lines 325 to 344): below the \<open>v-if\<close> on \<open>isVisible\<close> the thumb binds
  its \<open>style\<close> to \<open>thumbStyle\<close>, so a render of the visible component reads the \<open>computed\<close>.
\<close>

definition render :: "component \<Rightarrow> component" where
  "render s = (if isVisible s then snd (thumbStyle_value s) else s)"

text \<open>The template refs of lines 336 and 337, bound or unbound by Vue.\<close>

definition bindTemplateRefs :: "elem_id option \<Rightarrow> elem_id option \<Rightarrow> component \<Rightarrow> component" where
  "bindTemplateRefs bar thumb s =
     (invalidate (bar \<noteq> customScrollbarRef s) s)
       \<lparr>customScrollbarRef := bar, customScrollbarThumbRef := thumb\<rparr>"

text \<open>The host passes new props; \<open>thumbStyle\<close> reads \<open>minThumbWidth\<close> only.\<close>

definition updateProps :: "props \<Rightarrow> component \<Rightarrow> component" where
  "updateProps p s =
     (invalidate (minThumbWidth p \<noteq> minThumbWidth (props s)) s)\<lparr>props := p\<rparr>"

section \<open>Concrete configurations\<close>

text \<open>
  A page with a viewport (element 0: 500 wide, scrolled to 200), its content (element 1:
  1500 wide), the track (element 2: 300 wide, its left edge at 10) and the thumb
  (element 3).
\<close>

definition blank_element :: element where
  "blank_element =
     \<lparr>el_scrollLeft = 0, clientWidth = 0, scrollWidth = 0, offsetWidth = 0, rect_left = 0\<rparr>"

definition example_page :: "elem_id \<Rightarrow> element" where
  "example_page =
     (\<lambda>_. blank_element)
       (0 := blank_element\<lparr>el_scrollLeft := 200, clientWidth := 500, scrollWidth := 1500\<rparr>,
        1 := blank_element\<lparr>clientWidth := 1500, scrollWidth := 1500\<rparr>,
        2 := blank_element\<lparr>offsetWidth := 300, rect_left := 10\<rparr>,
        3 := blank_element\<lparr>offsetWidth := 100\<rparr>)"

text \<open>The defaults of \<open>withDefaults\<close> (lines 12 to 24).\<close>

definition default_props :: props where
  "default_props =
     \<lparr>targetSelector = SelString ''#viewport'', contentSelector = SelString ''#content'',
      autoShow = True, minScrollDistance = 50, enableKeyboard = True, scrollStep = 50,
      minThumbWidth = 30, throttleDelay = 16, disabled = False\<rparr>"

text \<open>The refs as the script creates them (lines 28 to 43), on a given page.\<close>

definition initial_component :: "props \<Rightarrow> (elem_id \<Rightarrow> element) \<Rightarrow>
    (string \<Rightarrow> elem_id option outcome) \<Rightarrow> component" where
  "initial_component p pg qs =
     \<lparr>props = p, scrollLeft = 0, maxScroll = 0, scrollPercent = 0, showScrollbar = False,
      isVisible = False, customScrollbarRef = None, customScrollbarThumbRef = None,
      isDragging = False, dragStartX = 0, dragStartScrollLeft = 0, targetElement = None,
      contentElement = None, resizeObserver = None, thumbStyle_cache = None, page = pg,
      querySelector = qs,
      listeners = [], emitted = [], console = [], defaultPrevented = []\<rparr>"

text \<open>
  The component mounted on that page, initialised, rendered and idle: the thumb is 100
  wide and sits at 40.
\<close>

definition example_component :: component where
  "example_component =
     \<lparr>props = default_props, scrollLeft = 200, maxScroll = 1000, scrollPercent = 20,
      showScrollbar = True, isVisible = True, customScrollbarRef = Some 2,
      customScrollbarThumbRef = Some 3, isDragging = False, dragStartX = 0,
      dragStartScrollLeft = 0, targetElement = Some 0, contentElement = Some 1,
      resizeObserver = Some [0, 1],
      thumbStyle_cache = Some \<lparr>cached = \<lparr>width = 100, left = 40\<rparr>, tracks_scrollLeft = True\<rparr>,
      page = example_page,
      querySelector = (\<lambda>q. Returns None),
      listeners = [(Document, ''keydown'', HandleKeyDown),
                   (Element 0, ''scroll'', ThrottledHandleScroll)],
      emitted = [Ready], console = [], defaultPrevented = []\<rparr>"

text \<open>
  In the middle of a mouse drag that started at pointer 100 and offset 200 and has reached
  offset 350, rendered: the thumb sits at 70.
\<close>

definition dragging_component :: component where
  "dragging_component =
     example_component
       \<lparr>isDragging := True, dragStartX := 100, dragStartScrollLeft := 200,
        scrollLeft := 350, scrollPercent := 35,
        thumbStyle_cache :=
          Some \<lparr>cached = \<lparr>width = 100, left = 70\<rparr>, tracks_scrollLeft = True\<rparr>,
        page := example_page(0 := (example_page 0)\<lparr>el_scrollLeft := 350\<rparr>),
        listeners := listeners example_component @
          [(Document, ''mousemove'', HandleMouseMove), (Document, ''mouseup'', HandleMouseUp)]\<rparr>"

text \<open>
  The same drag after the content grew to 1700: the page has changed, the refs and the
  kept thumb style (100 wide, from the content of 1500) not.
\<close>

definition resized_dragging_component :: component where
  "resized_dragging_component =
     dragging_component
       \<lparr>page := (page dragging_component)
                   (1 := (page dragging_component 1)\<lparr>scrollWidth := 1700\<rparr>)\<rparr>"

text \<open>
  The component mounted and rendered on a track as wide as the minimal thumb (30), and on
  a track narrower than it (20).
\<close>

definition degenerate_component :: component where
  "degenerate_component =
     example_component
       \<lparr>page := example_page(2 := (example_page 2)\<lparr>offsetWidth := 30\<rparr>),
        thumbStyle_cache :=
          Some \<lparr>cached = \<lparr>width = 30, left = 0\<rparr>, tracks_scrollLeft = True\<rparr>\<rparr>"

definition degenerate_dragging_component :: component where
  "degenerate_dragging_component =
     degenerate_component\<lparr>isDragging := True, dragStartX := 100, dragStartScrollLeft := 200\<rparr>"

definition narrow_component :: component where
  "narrow_component =
     example_component
       \<lparr>page := example_page(2 := (example_page 2)\<lparr>offsetWidth := 20\<rparr>),
        thumbStyle_cache :=
          Some \<lparr>cached = \<lparr>width = 30, left = - 2\<rparr>, tracks_scrollLeft = True\<rparr>\<rparr>"

definition disabled_component :: component where
  "disabled_component = example_component\<lparr>props := default_props\<lparr>disabled := True\<rparr>\<rparr>"

text \<open>
  The content has shrunk to the width of the viewport (500) while the viewport is still
  scrolled to 200; the refs and the kept thumb style hold the values of the last
  recomputation.
\<close>

definition fitting_component :: component where
  "fitting_component =
     example_component\<lparr>page := example_page(1 := (example_page 1)\<lparr>scrollWidth := 500\<rparr>)\<rparr>"

section \<open>Notions the properties are stated with\<close>

text \<open>The relation between the three refs of the scroll state.\<close>

definition percent_invariant :: "component \<Rightarrow> bool" where
  "percent_invariant s \<longleftrightarrow>
     scrollPercent s = (if maxScroll s > 0 then (scrollLeft s / maxScroll s) * 100 else 0)"

definition scroll_state :: "component \<Rightarrow> real \<times> real \<times> real" where
  "scroll_state s = (scrollLeft s, maxScroll s, scrollPercent s)"

fun scroll_state_ok :: "real \<times> real \<times> real \<Rightarrow> bool" where
  "scroll_state_ok (sl, ms, sp) \<longleftrightarrow>
     0 \<le> ms \<and> sp = (if ms > 0 then (sl / ms) * 100 else 0)"

text \<open>The listeners that \<open>cleanup\<close> removes from the document (lines 294 to 298).\<close>

definition document_listeners :: "listener set" where
  "document_listeners =
     {(Document, ''keydown'', HandleKeyDown), (Document, ''mousemove'', HandleMouseMove),
      (Document, ''mouseup'', HandleMouseUp), (Document, ''touchmove'', HandleTouchMove),
      (Document, ''touchend'', HandleTouchEnd)}"

text \<open>
  The states of a component: the script creates the refs, and from then on every step is
  a hook, a handler, an exposed operation, a render, or a change made from outside to
  what the script only reads (the template refs, the page and its metrics, the props).
\<close>

inductive reachable :: "component \<Rightarrow> bool" where
  created: "reachable (initial_component p pg qs)"
| mounted: "reachable s \<Longrightarrow> reachable (onMounted s)"
| initialized: "reachable s \<Longrightarrow> reachable (initializeTarget s)"
| rendered: "reachable s \<Longrightarrow> reachable (render s)"
| refs_bound: "reachable s \<Longrightarrow> reachable (bindTemplateRefs bar thumb s)"
| page_changed: "reachable s \<Longrightarrow> reachable (s\<lparr>page := pg, querySelector := qs\<rparr>)"
| props_changed: "reachable s \<Longrightarrow> reachable (updateProps p s)"
| scroll_signal: "reachable s \<Longrightarrow> reachable (throttledHandleScroll s)"
| resize_signal: "reachable s \<Longrightarrow> reachable (resizeObserverCallback s)"
| click: "reachable s \<Longrightarrow> reachable (handleScrollbarClick me s)"
| mouse_down: "reachable s \<Longrightarrow> reachable (handleThumbMouseDown me s)"
| touch_start: "reachable s \<Longrightarrow> handleThumbTouchStart te s = Inr s' \<Longrightarrow> reachable s'"
| mouse_move: "reachable s \<Longrightarrow> reachable (handleMouseMove me s)"
| touch_move: "reachable s \<Longrightarrow> handleTouchMove te s = Inr s' \<Longrightarrow> reachable s'"
| mouse_up: "reachable s \<Longrightarrow> reachable (handleMouseUp s)"
| touch_end: "reachable s \<Longrightarrow> reachable (handleTouchEnd s)"
| key_down: "reachable s \<Longrightarrow> reachable (handleKeyDown ke s)"
| exposed_scrollToPosition: "reachable s \<Longrightarrow> reachable (scrollToPosition n s)"
| exposed_scrollToEnd: "reachable s \<Longrightarrow> reachable (scrollToEnd s)"
| exposed_updateScrollInfo: "reachable s \<Longrightarrow> reachable (updateScrollInfo s)"
| unmounted: "reachable s \<Longrightarrow> reachable (onUnmounted s)"

section \<open>Properties\<close>

subsection \<open>Shared facts\<close>

lemmas example_defs = example_component_def dragging_component_def
  resized_dragging_component_def degenerate_component_def degenerate_dragging_component_def
  narrow_component_def disabled_component_def fitting_component_def example_page_def
  blank_element_def default_props_def

lemmas width_defs = targetWidth_of_def contentWidth_of_def scrollbarWidth_of_def js_or_def

lemmas geometry_defs = thumbStyle_def Let_def thumbWidth_def thumbPosition_def width_defs

lemma thumbStyle_width:
  "width (thumbStyle s) =
     thumbWidth (minThumbWidth (props s)) (targetWidth_of s) (contentWidth_of s)
       (scrollbarWidth_of s)"
  by (simp add: thumbStyle_def Let_def)

lemma thumbStyle_left:
  "left (thumbStyle s) =
     thumbPosition (scrollLeft s) (maxScroll s) (scrollbarWidth_of s) (width (thumbStyle s))"
  by (simp add: thumbStyle_def Let_def)

lemma thumbStyle_width_scrollLeft [simp]:
  "width (thumbStyle (s\<lparr>scrollLeft := a\<rparr>)) = width (thumbStyle s)"
  by (simp add: thumbStyle_def Let_def width_defs split: option.splits)

lemma scrollbarWidth_of_scrollLeft [simp]:
  "scrollbarWidth_of (s\<lparr>scrollLeft := a\<rparr>) = scrollbarWidth_of s"
  by (simp add: width_defs split: option.splits)

lemma scrollbarWidth_of_bar:
  "customScrollbarRef s = Some bar \<Longrightarrow> scrollbarWidth_of s = offsetWidth (page s bar)"
  by (simp add: width_defs)

lemma page_emit [simp]: "page (emit n s) = page s"
  by (simp add: emit_def)

lemma page_updateScrollInfo [simp]: "page (updateScrollInfo s) = page s"
  by (simp add: updateScrollInfo_def invalidate_def Let_def split: option.splits)

lemma scrollToPosition_in_range:
  assumes "targetElement s = Some t" and "0 \<le> x" and "x \<le> maxScroll s"
  shows "el_scrollLeft (page (scrollToPosition (Num x) s) t) = x"
  using assms by (simp add: scrollToPosition_def clampedPosition_def set_scrollLeft_def)

text \<open>Reading the \<open>computed\<close> changes nothing but what the \<open>computed\<close> keeps.\<close>

lemma thumbStyle_value_frame:
  "snd (thumbStyle_value s) = s\<lparr>thumbStyle_cache := thumbStyle_cache (snd (thumbStyle_value s))\<rparr>"
  by (simp add: thumbStyle_value_def split: option.splits)

lemma thumbStyle_value_fields [simp]:
  "page (snd (thumbStyle_value s)) = page s"
  "maxScroll (snd (thumbStyle_value s)) = maxScroll s"
  "scrollLeft (snd (thumbStyle_value s)) = scrollLeft s"
  "scrollPercent (snd (thumbStyle_value s)) = scrollPercent s"
  "targetElement (snd (thumbStyle_value s)) = targetElement s"
  "contentElement (snd (thumbStyle_value s)) = contentElement s"
  "customScrollbarRef (snd (thumbStyle_value s)) = customScrollbarRef s"
  "dragStartX (snd (thumbStyle_value s)) = dragStartX s"
  "dragStartScrollLeft (snd (thumbStyle_value s)) = dragStartScrollLeft s"
  "emitted (snd (thumbStyle_value s)) = emitted s"
  by (simp_all add: thumbStyle_value_def split: option.splits)

lemma thumbStyle_value_kept:
  "thumbStyle_cache s = Some c \<Longrightarrow> thumbStyle_value s = (cached c, s)"
  by (simp add: thumbStyle_value_def)

lemma thumbStyle_value_evaluated:
  "thumbStyle_cache s = None \<Longrightarrow> fst (thumbStyle_value s) = thumbStyle s"
  by (simp add: thumbStyle_value_def)

text \<open>
  In the configurations that are rendered on their page, the kept thumb style is what an
  evaluation on that page gives.
\<close>

lemma rendered_examples:
  "fst (thumbStyle_value example_component) = thumbStyle example_component"
  "fst (thumbStyle_value dragging_component) = thumbStyle dragging_component"
  "fst (thumbStyle_value degenerate_component) = thumbStyle degenerate_component"
  "fst (thumbStyle_value degenerate_dragging_component) = thumbStyle degenerate_dragging_component"
  "fst (thumbStyle_value narrow_component) = thumbStyle narrow_component"
  "fst (thumbStyle_value disabled_component) = thumbStyle disabled_component"
  by (simp_all add: example_defs geometry_defs thumbStyle_value_def)

lemmas handler_defs = handleScrollbarClick_def updateDragPosition_def thumbStyle_value_def
  scrollToPosition_def clampedPosition_def set_scrollLeft_def case_prod_beta

subsection \<open>A track as wide as the thumb\<close>

text \<open>
  With a non-zero divisor both offsets are finite; with a zero divisor neither ever is.
  Nothing in lines 176, 230 and 231 tests the divisor.
\<close>

lemma targetScrollLeft_finite_iff:
  "is_finite (targetScrollLeft clickX sw tw ms) \<longleftrightarrow> sw \<noteq> tw"
  by (simp add: targetScrollLeft_def inf_of_sign_def)

lemma newScrollLeft_finite_iff:
  "is_finite (newScrollLeft deltaX sw tw ms start) \<longleftrightarrow> sw \<noteq> tw"
  by (simp add: newScrollLeft_def inf_of_sign_def)

text \<open>
  C1 claims that on a track as wide as the thumb the click and the drag computations
  yield the zero offset, respectively the start offset, and no non-finite value. The code
  does otherwise. On a track of 30 under the default minimal thumb of 30, with
  \<open>maxScroll = 1000\<close>: a click 30 to the right of the track's left edge computes
  \<open>15 / 0 * 1000\<close>, which is \<open>Infinity\<close>, and the viewport is sent to 1000; a drag that
  started at offset 200 and has moved by 1 computes \<open>200 + 1 / 0 * 1000\<close>, again
  \<open>Infinity\<close>, and the viewport is sent to 1000; a drag that has not moved computes
  \<open>200 + 0 / 0 * 1000\<close>, which is \<open>NaN\<close>, and the viewport is sent to 0.
\<close>

theorem degenerate_track_divides_by_zero:
  "width (thumbStyle degenerate_component) = offsetWidth (page degenerate_component 2)
   \<and> maxScroll degenerate_component = 1000
   \<and> targetScrollLeft 30 30 30 1000 = PosInf
   \<and> el_scrollLeft (page (handleScrollbarClick (MouseEvent 40 2) degenerate_component) 0) = 1000
   \<and> dragStartScrollLeft degenerate_dragging_component = 200
   \<and> newScrollLeft 1 30 30 1000 200 = PosInf
   \<and> el_scrollLeft (page (updateDragPosition 101 degenerate_dragging_component) 0) = 1000
   \<and> newScrollLeft 0 30 30 1000 200 = NaN
   \<and> el_scrollLeft (page (updateDragPosition 100 degenerate_dragging_component) 0) = 0"
  by (simp add: example_defs geometry_defs handler_defs targetScrollLeft_def
      newScrollLeft_def inf_of_sign_def)

subsection \<open>Starting a drag during a drag\<close>

lemma addEventListener_present: "l \<in> set ls \<Longrightarrow> addEventListener l ls = ls"
  by (simp add: addEventListener_def)

text \<open>
  C2, as amended. On a component that is not disabled and is already dragging, a mouse
  down on the thumb, or a touch start with at least one touch, starts the session again:
  \<open>isDragging\<close> stays true, the start pointer becomes the new pointer, the start offset
  becomes the current \<open>scrollLeft\<close>, and one more \<open>dragStart\<close> is emitted. The move and
  up listeners of that kind of pointer, when already on the document, are not added a
  second time.
\<close>

theorem second_drag_start_restarts_session:
  assumes "isDragging s" and "\<not> disabled (props s)"
  shows "isDragging (handleThumbMouseDown e s)
    \<and> dragStartX (handleThumbMouseDown e s) = clientX e
    \<and> dragStartScrollLeft (handleThumbMouseDown e s) = scrollLeft s
    \<and> emitted (handleThumbMouseDown e s) = emitted s @ [DragStart (MouseEv e)]
    \<and> ((Document, ''mousemove'', HandleMouseMove) \<in> set (listeners s)
        \<and> (Document, ''mouseup'', HandleMouseUp) \<in> set (listeners s)
        \<longrightarrow> listeners (handleThumbMouseDown e s) = listeners s)
    \<and> (touches te = x # xs \<longrightarrow>
         (\<exists>s'. handleThumbTouchStart te s = Inr s'
            \<and> isDragging s' \<and> dragStartX s' = x \<and> dragStartScrollLeft s' = scrollLeft s
            \<and> emitted s' = emitted s @ [DragStart (TouchEv te)]
            \<and> ((Document, ''touchmove'', HandleTouchMove) \<in> set (listeners s)
                \<and> (Document, ''touchend'', HandleTouchEnd) \<in> set (listeners s)
                \<longrightarrow> listeners s' = listeners s)))"
  using assms
  by (simp add: handleThumbMouseDown_def handleThumbTouchStart_def startDragging_def emit_def
      preventDefault_def Let_def addEventListener_present)

text \<open>
  A drag that started at pointer 100 and offset 200 and has reached offset 350; a second
  mouse down at pointer 130.
\<close>

theorem second_drag_start_restarts_session_witness:
  "isDragging dragging_component \<and> \<not> disabled (props dragging_component)
   \<and> isDragging (handleThumbMouseDown (MouseEvent 130 3) dragging_component)
   \<and> dragStartX (handleThumbMouseDown (MouseEvent 130 3) dragging_component) = 130
   \<and> dragStartScrollLeft (handleThumbMouseDown (MouseEvent 130 3) dragging_component) = 350
   \<and> listeners (handleThumbMouseDown (MouseEvent 130 3) dragging_component)
       = listeners dragging_component"
proof -
  have d: "isDragging dragging_component" and e: "\<not> disabled (props dragging_component)"
    by (simp_all add: example_defs)
  from second_drag_start_restarts_session
    [OF d e, of "MouseEvent 130 3" "TouchEvent [130]" 130 "[]"] d e
  show ?thesis by (simp add: example_defs)
qed

text \<open>
  C2 as stated fails there: the drag is active, and the second mouse down replaces the
  stored start pointer 100 by 130 and the stored start offset 200 by 350, and emits a
  second \<open>dragStart\<close>.
\<close>

theorem second_drag_start_counterexample:
  "isDragging dragging_component
   \<and> dragStartX dragging_component = 100
   \<and> dragStartX (handleThumbMouseDown (MouseEvent 130 3) dragging_component) = 130
   \<and> dragStartScrollLeft dragging_component = 200
   \<and> dragStartScrollLeft (handleThumbMouseDown (MouseEvent 130 3) dragging_component) = 350
   \<and> emitted (handleThumbMouseDown (MouseEvent 130 3) dragging_component)
       = emitted dragging_component @ [DragStart (MouseEv (MouseEvent 130 3))]"
  by (simp add: handleThumbMouseDown_def startDragging_def emit_def preventDefault_def Let_def
      example_defs)

subsection \<open>Teardown\<close>

lemma listeners_cleanup:
  "listeners (cleanup s) =
     removeEventListener (Document, ''touchend'', HandleTouchEnd)
       (removeEventListener (Document, ''touchmove'', HandleTouchMove)
          (removeEventListener (Document, ''mouseup'', HandleMouseUp)
             (removeEventListener (Document, ''mousemove'', HandleMouseMove)
                (removeEventListener (Document, ''keydown'', HandleKeyDown)
                   (case targetElement s of
                      None \<Rightarrow> listeners s
                    | Some t \<Rightarrow>
                        removeEventListener (Element t, ''scroll'', ThrottledHandleScroll)
                          (listeners s))))))"
  by (simp add: cleanup_def Let_def split: option.splits)

lemma resizeObserver_cleanup:
  "resizeObserver (cleanup s) = (case resizeObserver s of None \<Rightarrow> None | Some _ \<Rightarrow> Some [])"
  by (simp add: cleanup_def Let_def split: option.splits)

lemma cleanup_frame:
  "cleanup s = s\<lparr>listeners := listeners (cleanup s), resizeObserver := resizeObserver (cleanup s)\<rparr>"
  by (simp add: cleanup_def Let_def split: option.splits)

lemma targetElement_cleanup [simp]: "targetElement (cleanup s) = targetElement s"
  by (simp add: cleanup_def Let_def split: option.splits)

lemma removeEventListener_absent:
  "l \<notin> set ls \<Longrightarrow> removeEventListener l ls = ls"
  by (simp add: removeEventListener_def)

lemma set_removeEventListener: "set (removeEventListener l ls) = set ls - {l}"
  by (simp add: removeEventListener_def)

lemma listeners_cleanup_idem: "listeners (cleanup (cleanup s)) = listeners (cleanup s)"
  by (subst listeners_cleanup)
    (simp add: listeners_cleanup removeEventListener_absent set_removeEventListener
      split: option.splits)

lemma resizeObserver_cleanup_idem:
  "resizeObserver (cleanup (cleanup s)) = resizeObserver (cleanup s)"
  by (simp add: resizeObserver_cleanup split: option.splits)

lemma cleanup_idem: "cleanup (cleanup s) = cleanup s"
proof -
  have "cleanup (cleanup s) =
      (cleanup s)\<lparr>listeners := listeners (cleanup (cleanup s)),
                  resizeObserver := resizeObserver (cleanup (cleanup s))\<rparr>"
    by (rule cleanup_frame)
  also have "\<dots> = cleanup s"
    by (simp add: listeners_cleanup_idem resizeObserver_cleanup_idem)
  finally show ?thesis .
qed

lemma cleanup_no_document_listeners:
  "set (listeners (cleanup s)) \<inter> document_listeners = {}"
  by (simp add: listeners_cleanup set_removeEventListener document_listeners_def)

lemma cleanup_no_scroll_listener:
  "targetElement s = Some t \<Longrightarrow>
     (Element t, ''scroll'', ThrottledHandleScroll) \<notin> set (listeners (cleanup s))"
  by (simp add: listeners_cleanup set_removeEventListener)

lemma isDragging_cleanup: "isDragging (cleanup s) = isDragging s"
  by (subst cleanup_frame) simp

text \<open>
  C3, as amended. \<open>cleanup\<close>, which is all the unmount hook runs, changes the listeners
  and the resize observer and nothing else: \<open>isDragging\<close> keeps the value it had. After
  it the document carries none of the keyboard and drag listeners, the resolved target
  does not carry the scroll listener, and an observer that existed observes nothing.
  Running it a second time changes nothing, whatever was attached before.
\<close>

theorem cleanup_detaches_and_is_idempotent:
  "isDragging (cleanup s) = isDragging s
   \<and> cleanup s = s\<lparr>listeners := listeners (cleanup s), resizeObserver := resizeObserver (cleanup s)\<rparr>
   \<and> set (listeners (cleanup s)) \<inter> document_listeners = {}
   \<and> (targetElement s = Some t \<longrightarrow>
        (Element t, ''scroll'', ThrottledHandleScroll) \<notin> set (listeners (cleanup s)))
   \<and> (resizeObserver s \<noteq> None \<longrightarrow> resizeObserver (cleanup s) = Some [])
   \<and> cleanup (cleanup s) = cleanup s
   \<and> onUnmounted s = cleanup s"
proof -
  have "resizeObserver s \<noteq> None \<longrightarrow> resizeObserver (cleanup s) = Some []"
    by (simp add: resizeObserver_cleanup split: option.splits)
  moreover have "onUnmounted s = cleanup s"
    by (simp add: onUnmounted_def)
  moreover note isDragging_cleanup [of s] cleanup_frame [of s] cleanup_no_document_listeners [of s]
    cleanup_no_scroll_listener [of s t] cleanup_idem [of s]
  ultimately show ?thesis by blast
qed

text \<open>Unmounting in the middle of a mouse drag: every listener goes, the flag stays.\<close>

theorem cleanup_detaches_and_is_idempotent_witness:
  "targetElement dragging_component = Some 0 \<and> resizeObserver dragging_component \<noteq> None
   \<and> isDragging (cleanup dragging_component)
   \<and> (Element 0, ''scroll'', ThrottledHandleScroll) \<notin> set (listeners (cleanup dragging_component))
   \<and> resizeObserver (cleanup dragging_component) = Some []
   \<and> listeners (cleanup dragging_component) = []
   \<and> cleanup (cleanup dragging_component) = cleanup dragging_component"
proof -
  have t: "targetElement dragging_component = Some 0"
    and r: "resizeObserver dragging_component \<noteq> None"
    and d: "isDragging dragging_component"
    by (simp_all add: example_defs)
  have l: "listeners (cleanup dragging_component) = []"
    by (simp add: listeners_cleanup removeEventListener_def example_defs)
  from cleanup_detaches_and_is_idempotent [of dragging_component 0] t r d l
  show ?thesis by simp
qed

text \<open>
  C3 as stated fails there: the component is dragging when it is unmounted, and
  \<open>isDragging\<close> is still true after the hook and after \<open>cleanup\<close>.
\<close>

theorem cleanup_keeps_drag_flag_counterexample:
  "isDragging dragging_component \<and> isDragging (onUnmounted dragging_component)
   \<and> isDragging (cleanup dragging_component)"
  by (simp add: onUnmounted_def isDragging_cleanup example_defs)

subsection \<open>The thumb within the track\<close>

lemma thumbPosition_mono:
  assumes "a \<le> b" and "tw \<le> sw"
  shows "thumbPosition a ms sw tw \<le> thumbPosition b ms sw tw"
proof (cases "ms > 0")
  case True
  from assms(1) True have "a / ms \<le> b / ms" by (simp add: divide_right_mono)
  moreover from assms(2) have "0 \<le> sw - tw" by simp
  ultimately have "(a / ms) * (sw - tw) \<le> (b / ms) * (sw - tw)"
    by (rule mult_right_mono)
  with True show ?thesis by (simp add: thumbPosition_def)
next
  case False
  then show ?thesis by (simp add: thumbPosition_def)
qed

lemma thumbPosition_fits:
  assumes "b \<le> ms" and "tw \<le> sw"
  shows "thumbPosition b ms sw tw + tw \<le> sw"
proof (cases "ms > 0")
  case True
  with assms(1) have "b / ms \<le> 1" by simp
  moreover from assms(2) have "0 \<le> sw - tw" by simp
  ultimately have "(b / ms) * (sw - tw) \<le> 1 * (sw - tw)"
    by (rule mult_right_mono)
  with True show ?thesis by (simp add: thumbPosition_def)
next
  case False
  with assms(2) show ?thesis by (simp add: thumbPosition_def)
qed

text \<open>
  C4, as amended. While the thumb is no wider than the track, the left position that
  \<open>thumbStyle\<close> computes does not decrease when \<open>scrollLeft\<close> grows, and for every
  \<open>scrollLeft\<close> up to \<open>maxScroll\<close> the thumb ends inside the track:
  \<open>left + width \<le> scrollbarWidth\<close>.
\<close>

theorem thumb_monotone_within_track:
  assumes "a \<le> b" and "b \<le> maxScroll s"
    and "width (thumbStyle s) \<le> scrollbarWidth_of s"
  shows "left (thumbStyle (s\<lparr>scrollLeft := a\<rparr>)) \<le> left (thumbStyle (s\<lparr>scrollLeft := b\<rparr>))
    \<and> left (thumbStyle (s\<lparr>scrollLeft := b\<rparr>)) + width (thumbStyle (s\<lparr>scrollLeft := b\<rparr>))
        \<le> scrollbarWidth_of s"
  using thumbPosition_mono [OF assms(1) assms(3)] thumbPosition_fits [OF assms(2) assms(3)]
  by (simp add: thumbStyle_left)

text \<open>
  The thumb is no wider than the track when the track is at least \<open>minThumbWidth\<close> wide
  and the viewport is no wider than its content.
\<close>

lemma thumbWidth_le_track:
  assumes "minThumbWidth (props s) \<le> scrollbarWidth_of s"
    and "0 \<le> targetWidth_of s" and "targetWidth_of s \<le> contentWidth_of s"
    and "0 < contentWidth_of s" and "0 \<le> scrollbarWidth_of s"
  shows "width (thumbStyle s) \<le> scrollbarWidth_of s"
proof -
  from assms(2,3,4) have "targetWidth_of s / contentWidth_of s \<le> 1" by simp
  moreover from assms(2,4) have "0 \<le> targetWidth_of s / contentWidth_of s" by simp
  moreover note assms(5)
  ultimately have "(targetWidth_of s / contentWidth_of s) * scrollbarWidth_of s \<le> 1 * scrollbarWidth_of s"
    by (intro mult_right_mono)
  with assms(1) show ?thesis by (simp add: thumbStyle_width thumbWidth_def)
qed

text \<open>The scenario of the specification: widths 500, 1500, 300 and 30; the thumb goes from 0 to 200.\<close>

theorem thumb_monotone_within_track_witness:
  "(0::real) \<le> 1000 \<and> 1000 \<le> maxScroll example_component
   \<and> width (thumbStyle example_component) \<le> scrollbarWidth_of example_component
   \<and> left (thumbStyle (example_component\<lparr>scrollLeft := 0\<rparr>)) = 0
   \<and> left (thumbStyle (example_component\<lparr>scrollLeft := 1000\<rparr>)) = 200
   \<and> left (thumbStyle (example_component\<lparr>scrollLeft := 1000\<rparr>))
       + width (thumbStyle (example_component\<lparr>scrollLeft := 1000\<rparr>)) \<le> scrollbarWidth_of example_component"
  using thumb_monotone_within_track [of 0 1000 example_component]
  by (simp add: example_defs thumbStyle_def Let_def thumbWidth_def thumbPosition_def width_defs)

text \<open>
  C4 as stated fails on a track of 20 under a minimal thumb of 30, all inputs being
  non-negative: the thumb is 30 wide, it moves from 0 to -10 as \<open>scrollLeft\<close> goes from 0
  to \<open>maxScroll\<close>, and at 0 it ends at 30, beyond the track.
\<close>

theorem thumb_overflow_counterexample:
  "0 \<le> clientWidth (page narrow_component 0) \<and> 0 \<le> scrollWidth (page narrow_component 1)
   \<and> 0 \<le> offsetWidth (page narrow_component 2) \<and> 0 \<le> minThumbWidth (props narrow_component)
   \<and> maxScroll narrow_component = 1000
   \<and> left (thumbStyle (narrow_component\<lparr>scrollLeft := 1000\<rparr>))
       < left (thumbStyle (narrow_component\<lparr>scrollLeft := 0\<rparr>))
   \<and> scrollbarWidth_of narrow_component
       < left (thumbStyle (narrow_component\<lparr>scrollLeft := 0\<rparr>))
         + width (thumbStyle (narrow_component\<lparr>scrollLeft := 0\<rparr>))"
  by (simp add: example_defs thumbStyle_def Let_def thumbWidth_def thumbPosition_def width_defs)

subsection \<open>Clamping\<close>

lemma clampedPosition_Num: "clampedPosition ms (Num p) = Num (max 0 (min ms p))"
  by (simp add: clampedPosition_def)

lemma clampedPosition_in_range:
  assumes "0 \<le> ms" and "n \<noteq> NaN"
  shows "\<exists>v. clampedPosition ms n = Num v \<and> 0 \<le> v \<and> v \<le> ms"
  using assms by (cases n) (simp_all add: clampedPosition_def)

lemma page_scrollToPosition:
  "targetElement s = Some t \<Longrightarrow>
     page (scrollToPosition n s) = set_scrollLeft (page s) t (clampedPosition (maxScroll s) n)"
  by (simp add: scrollToPosition_def)

text \<open>
  C5, as amended. With the target resolved (and \<open>maxScroll\<close> not negative, as it is in
  every state the component reaches), \<open>scrollToPosition\<close> hands to the target's
  \<open>scrollLeft\<close>, within the call, the value of line 159. For every argument but \<open>NaN\<close>
  that value is a number between 0 and \<open>maxScroll\<close>, and it is the offset of the target
  after the call: a finite argument clamped to the interval, \<open>maxScroll\<close> for \<open>Infinity\<close>,
  0 for \<open>-Infinity\<close>. So -100 gives 0, \<open>maxScroll + 100\<close> gives \<open>maxScroll\<close>, and an
  argument inside the interval is assigned as it is.
\<close>

theorem scrollToPosition_clamps:
  assumes "targetElement s = Some t" and "0 \<le> maxScroll s"
  shows "page (scrollToPosition n s) = set_scrollLeft (page s) t (clampedPosition (maxScroll s) n)
    \<and> (n \<noteq> NaN \<longrightarrow>
         (\<exists>v. clampedPosition (maxScroll s) n = Num v \<and> 0 \<le> v \<and> v \<le> maxScroll s
            \<and> el_scrollLeft (page (scrollToPosition n s) t) = v))
    \<and> clampedPosition (maxScroll s) (Num p) = Num (max 0 (min (maxScroll s) p))
    \<and> clampedPosition (maxScroll s) PosInf = Num (maxScroll s)
    \<and> clampedPosition (maxScroll s) NegInf = Num 0
    \<and> el_scrollLeft (page (scrollToPosition (Num p) s) t) = max 0 (min (maxScroll s) p)
    \<and> el_scrollLeft (page (scrollToPosition (Num (- 100)) s) t) = 0
    \<and> el_scrollLeft (page (scrollToPosition (Num (maxScroll s + 100)) s) t) = maxScroll s
    \<and> (0 \<le> p \<and> p \<le> maxScroll s \<longrightarrow>
         el_scrollLeft (page (scrollToPosition (Num p) s) t) = p)"
proof -
  have assigned: "page (scrollToPosition n s) =
      set_scrollLeft (page s) t (clampedPosition (maxScroll s) n)" for n
    using assms(1) by (rule page_scrollToPosition)
  have "\<exists>v. clampedPosition (maxScroll s) n = Num v \<and> 0 \<le> v \<and> v \<le> maxScroll s
      \<and> el_scrollLeft (page (scrollToPosition n s) t) = v" if "n \<noteq> NaN"
  proof -
    from clampedPosition_in_range [OF assms(2) that]
    obtain v where v: "clampedPosition (maxScroll s) n = Num v" "0 \<le> v" "v \<le> maxScroll s"
      by blast
    then have "el_scrollLeft (page (scrollToPosition n s) t) = v"
      by (simp add: assigned set_scrollLeft_def)
    with v show ?thesis by blast
  qed
  moreover have "clampedPosition (maxScroll s) PosInf = Num (maxScroll s)"
    "clampedPosition (maxScroll s) NegInf = Num 0"
    using assms(2) by (simp_all add: clampedPosition_def)
  moreover have "el_scrollLeft (page (scrollToPosition (Num q) s) t) = max 0 (min (maxScroll s) q)"
    for q
    by (simp add: assigned clampedPosition_Num set_scrollLeft_def)
  moreover note assigned [of n] clampedPosition_Num [of "maxScroll s" p]
  ultimately show ?thesis
    using assms(2) by simp
qed

text \<open>
  With \<open>maxScroll = 1000\<close>: -100 gives 0, 1100 gives 1000, 640 gives 640, and \<open>Infinity\<close>
  gives 1000.
\<close>

theorem scrollToPosition_clamps_witness:
  "targetElement example_component = Some 0 \<and> 0 \<le> maxScroll example_component
   \<and> PosInf \<noteq> NaN
   \<and> el_scrollLeft (page (scrollToPosition (Num (- 100)) example_component) 0) = 0
   \<and> el_scrollLeft (page (scrollToPosition (Num 1100) example_component) 0) = 1000
   \<and> el_scrollLeft (page (scrollToPosition (Num 640) example_component) 0) = 640
   \<and> el_scrollLeft (page (scrollToPosition PosInf example_component) 0) = 1000"
proof -
  have t: "targetElement example_component = Some 0"
    and m: "0 \<le> maxScroll example_component"
    and mv: "maxScroll example_component = 1000"
    by (simp_all add: example_defs)
  note w = scrollToPosition_clamps [OF t m, of PosInf 640]
  from w have low: "el_scrollLeft (page (scrollToPosition (Num (- 100)) example_component) 0) = 0"
    by blast
  from w have "el_scrollLeft (page (scrollToPosition (Num (maxScroll example_component + 100))
      example_component) 0) = maxScroll example_component"
    by blast
  then have high: "el_scrollLeft (page (scrollToPosition (Num 1100) example_component) 0) = 1000"
    by (simp add: mv)
  from w have "(0::real) \<le> 640 \<and> 640 \<le> maxScroll example_component \<longrightarrow>
      el_scrollLeft (page (scrollToPosition (Num 640) example_component) 0) = 640"
    by blast
  then have mid: "el_scrollLeft (page (scrollToPosition (Num 640) example_component) 0) = 640"
    by (simp add: mv)
  have inf: "PosInf \<noteq> NaN" by simp
  with w obtain v where "clampedPosition (maxScroll example_component) PosInf = Num v"
    and "el_scrollLeft (page (scrollToPosition PosInf example_component) 0) = v"
    by blast
  moreover from w
  have "clampedPosition (maxScroll example_component) PosInf = Num (maxScroll example_component)"
    by blast
  ultimately
  have top: "el_scrollLeft (page (scrollToPosition PosInf example_component) 0) = 1000"
    by (simp add: mv)
  from t m inf low high mid top show ?thesis by blast
qed

text \<open>
  C5 as stated fails for the argument \<open>NaN\<close>: line 159 computes
  \<open>Math.max(0, Math.min(1000, NaN))\<close>, which is \<open>NaN\<close>, no number of the interval, and
  line 160 assigns it. The click handler itself passes \<open>NaN\<close>: once the content fits the
  viewport, \<open>maxScroll\<close> is 0 and the thumb fills the track of 300, and a click 100 from
  the track's left edge computes \<open>-50 / 0 * 0\<close>.
\<close>

theorem scrollToPosition_NaN_counterexample:
  "targetElement example_component = Some 0
   \<and> maxScroll example_component = 1000
   \<and> clampedPosition (maxScroll example_component) NaN = NaN
   \<and> \<not> is_finite (clampedPosition (maxScroll example_component) NaN)
   \<and> page (scrollToPosition NaN example_component) = set_scrollLeft (page example_component) 0 NaN
   \<and> targetScrollLeft 100 300 300 0 = NaN
   \<and> page (handleScrollbarClick (MouseEvent 110 2) (updateScrollInfo fitting_component))
       = set_scrollLeft (page fitting_component) 0 NaN"
  by (simp add: example_defs geometry_defs handler_defs targetScrollLeft_def inf_of_sign_def
      updateScrollInfo_def invalidate_def emit_def)

subsection \<open>From the thumb back to the offset\<close>

lemma targetScrollLeft_thumb_centre:
  assumes "0 < ms" and "tw \<noteq> sw"
  shows "targetScrollLeft (thumbPosition x ms sw tw + tw / 2) sw tw ms = Num x"
  using assms by (simp add: targetScrollLeft_def thumbPosition_def)

lemma newScrollLeft_thumb_displacement:
  assumes "0 < ms" and "tw \<noteq> sw"
  shows "newScrollLeft (thumbPosition x ms sw tw - thumbPosition x0 ms sw tw) sw tw ms x0 = Num x"
  using assms by (simp add: newScrollLeft_def thumbPosition_def field_simps)

text \<open>
  C6, in exact arithmetic. Let the component be enabled with target, track and thumb
  resolved, \<open>maxScroll > 0\<close>, and \<open>x\<close> an offset between 0 and \<open>maxScroll\<close>. Let
  \<open>tw\<close> be the thumb width the handlers read from \<open>thumbStyle.value\<close> and \<open>sw\<close> the
  track width they read from the page, with \<open>tw < sw\<close>. The click formula at the centre of
  the thumb that the position formula of \<open>thumbStyle\<close> places for \<open>x\<close> on that track,
  and the drag formula at the displacement of that thumb from any start offset to \<open>x\<close>,
  both compute \<open>x\<close>. In the handlers: a click on the track at that centre assigns \<open>x\<close>
  to the target, and so does a drag position whose distance from the start pointer is
  that displacement from the start offset. That thumb is the one \<open>thumbStyle\<close> gives on
  the page as it is whenever the value read is such an evaluation.
\<close>

theorem click_and_drag_round_trip:
  assumes "targetElement s = Some t" and "customScrollbarRef s = Some bar"
    and "customScrollbarThumbRef s = Some thumb" and "\<not> disabled (props s)"
    and "0 < maxScroll s" and "0 \<le> x" and "x \<le> maxScroll s"
    and "tw = width (fst (thumbStyle_value s))" and "sw = offsetWidth (page s bar)"
    and "tw < sw"
  shows "targetScrollLeft (thumbPosition x (maxScroll s) sw tw + tw / 2) sw tw (maxScroll s) = Num x
    \<and> newScrollLeft (thumbPosition x (maxScroll s) sw tw - thumbPosition x0 (maxScroll s) sw tw)
          sw tw (maxScroll s) x0 = Num x
    \<and> (target e \<noteq> thumb
          \<and> clientX e - rect_left (page s bar) = thumbPosition x (maxScroll s) sw tw + tw / 2
          \<longrightarrow> el_scrollLeft (page (handleScrollbarClick e s) t) = x)
    \<and> (cx - dragStartX s
          = thumbPosition x (maxScroll s) sw tw
            - thumbPosition (dragStartScrollLeft s) (maxScroll s) sw tw
          \<longrightarrow> el_scrollLeft (page (updateDragPosition cx s) t) = x)
    \<and> (fst (thumbStyle_value s) = thumbStyle s \<longrightarrow>
          tw = width (thumbStyle s)
          \<and> thumbPosition y (maxScroll s) sw tw = left (thumbStyle (s\<lparr>scrollLeft := y\<rparr>)))"
proof -
  let ?s1 = "snd (thumbStyle_value s)"
  from assms(10) have ne: "tw \<noteq> sw" by simp
  have pure_click:
    "targetScrollLeft (thumbPosition x (maxScroll s) sw tw + tw / 2) sw tw (maxScroll s) = Num x"
    using assms(5) ne by (rule targetScrollLeft_thumb_centre)
  have pure_drag: "newScrollLeft
      (thumbPosition x (maxScroll s) sw tw - thumbPosition z (maxScroll s) sw tw)
      sw tw (maxScroll s) z = Num x" for z
    using assms(5) ne by (rule newScrollLeft_thumb_displacement)
  have "targetElement ?s1 = Some t" "0 \<le> x" "x \<le> maxScroll ?s1"
    using assms(1,6,7) by simp_all
  then have applied: "el_scrollLeft (page (scrollToPosition (Num x) ?s1) t) = x"
    by (rule scrollToPosition_in_range)
  have click: "el_scrollLeft (page (handleScrollbarClick e s) t) = x"
    if "target e \<noteq> thumb"
      and "clientX e - rect_left (page s bar) = thumbPosition x (maxScroll s) sw tw + tw / 2"
    using that assms(2,3,4) pure_click applied
    by (simp add: handleScrollbarClick_def case_prod_beta Let_def
        assms(8) [symmetric] assms(9) [symmetric])
  have drag: "el_scrollLeft (page (updateDragPosition cx s) t) = x"
    if "cx - dragStartX s = thumbPosition x (maxScroll s) sw tw
          - thumbPosition (dragStartScrollLeft s) (maxScroll s) sw tw"
    using that assms(2) pure_drag [of "dragStartScrollLeft s"] applied
    by (simp add: updateDragPosition_def case_prod_beta Let_def
        assms(8) [symmetric] assms(9) [symmetric])
  have fresh: "tw = width (thumbStyle s)
      \<and> thumbPosition y (maxScroll s) sw tw = left (thumbStyle (s\<lparr>scrollLeft := y\<rparr>))"
    if "fst (thumbStyle_value s) = thumbStyle s"
  proof -
    from that assms(8) have w: "tw = width (thumbStyle s)" by simp
    have "sw = scrollbarWidth_of s"
      using assms(2,9) by (simp add: scrollbarWidth_of_bar)
    with w show ?thesis by (simp add: thumbStyle_left)
  qed
  from pure_click pure_drag [of x0] click drag fresh show ?thesis by blast
qed

text \<open>
  During the drag that started at pointer 100 and offset 200, after the content grew to
  1700: the track is 300 with its left edge at 10, the thumb width read is the kept 100,
  \<open>maxScroll\<close> is still 1000. For the offset 400 the thumb sits at 80, its centre at 130:
  a click at pointer 140 gives 400. At the start offset the thumb sat at 40: the pointer
  at 140 has moved by 40, and the drag gives 400.
\<close>

theorem click_and_drag_round_trip_witness:
  "targetElement resized_dragging_component = Some 0
   \<and> customScrollbarRef resized_dragging_component = Some 2
   \<and> customScrollbarThumbRef resized_dragging_component = Some 3
   \<and> \<not> disabled (props resized_dragging_component)
   \<and> 0 < maxScroll resized_dragging_component
   \<and> (0::real) \<le> 400 \<and> 400 \<le> maxScroll resized_dragging_component
   \<and> (100::real) = width (fst (thumbStyle_value resized_dragging_component))
   \<and> (300::real) = offsetWidth (page resized_dragging_component 2)
   \<and> (100::real) < 300
   \<and> thumbPosition 400 (maxScroll resized_dragging_component) 300 100 = 80
   \<and> el_scrollLeft
        (page (handleScrollbarClick (MouseEvent 140 2) resized_dragging_component) 0) = 400
   \<and> el_scrollLeft (page (updateDragPosition 140 resized_dragging_component) 0) = 400"
proof -
  have h: "targetElement resized_dragging_component = Some 0"
    "customScrollbarRef resized_dragging_component = Some 2"
    "customScrollbarThumbRef resized_dragging_component = Some 3"
    "\<not> disabled (props resized_dragging_component)"
    "0 < maxScroll resized_dragging_component"
    "(0::real) \<le> 400" "400 \<le> maxScroll resized_dragging_component"
    "(100::real) = width (fst (thumbStyle_value resized_dragging_component))"
    "(300::real) = offsetWidth (page resized_dragging_component 2)"
    "(100::real) < 300"
    by (simp_all add: example_defs thumbStyle_value_def)
  have g: "maxScroll resized_dragging_component = 1000"
    "rect_left (page resized_dragging_component 2) = 10"
    "dragStartX resized_dragging_component = 100"
    "dragStartScrollLeft resized_dragging_component = 200"
    by (simp_all add: example_defs)
  have p: "thumbPosition 400 1000 300 100 = 80" "thumbPosition 200 1000 300 100 = 40"
    by (simp_all add: thumbPosition_def)
  from click_and_drag_round_trip [OF h, of 200 "MouseEvent 140 2" 140 200] h g p
  show ?thesis by simp
qed

text \<open>
  On that page an evaluation of \<open>thumbStyle\<close> would give a thumb about 88 wide; the
  handlers read the kept 100, as the code does.
\<close>

lemma kept_width_is_read:
  "width (thumbStyle resized_dragging_component) = 1500 / 17
   \<and> width (fst (thumbStyle_value resized_dragging_component)) = 100"
  by (simp add: example_defs geometry_defs thumbStyle_value_def)

subsection \<open>The scroll state\<close>

lemma scroll_state_ok_iff:
  "scroll_state_ok (scroll_state s) \<longleftrightarrow> 0 \<le> maxScroll s \<and> percent_invariant s"
  by (simp add: scroll_state_def percent_invariant_def)

text \<open>What a run that finds both elements leaves in the refs and publishes.\<close>

lemma updateScrollInfo_resolved:
  assumes "targetElement s = Some t" and "contentElement s = Some c"
  shows "scrollLeft (updateScrollInfo s) = el_scrollLeft (page s t)"
    and "maxScroll (updateScrollInfo s) = max 0 (scrollWidth (page s c) - clientWidth (page s t))"
    and "scrollPercent (updateScrollInfo s) =
          (if max 0 (scrollWidth (page s c) - clientWidth (page s t)) > 0
           then (el_scrollLeft (page s t)
                  / max 0 (scrollWidth (page s c) - clientWidth (page s t))) * 100
           else 0)"
    and "emitted (updateScrollInfo s) =
          emitted s @ [Scroll \<lparr>si_scrollLeft = scrollLeft (updateScrollInfo s),
                                si_maxScroll = maxScroll (updateScrollInfo s),
                                si_scrollPercent = scrollPercent (updateScrollInfo s)\<rparr>]"
  using assms
  by (simp_all add: updateScrollInfo_def invalidate_def emit_def Let_def)

lemma updateScrollInfo_unresolved:
  "\<not> (targetElement s \<noteq> None \<and> contentElement s \<noteq> None) \<Longrightarrow> updateScrollInfo s = s"
  by (auto simp: updateScrollInfo_def split: option.splits)

lemma updateScrollInfo_ok:
  "scroll_state_ok (scroll_state s) \<Longrightarrow> scroll_state_ok (scroll_state (updateScrollInfo s))"
  by (simp add: updateScrollInfo_def invalidate_def scroll_state_def emit_def Let_def
      split: option.splits)

text \<open>
  C7. A run of \<open>updateScrollInfo\<close> that finds both elements leaves the three refs in the
  relation \<open>scrollPercent = (maxScroll > 0 ? scrollLeft / maxScroll * 100 : 0)\<close> and
  publishes exactly these three values; a run that returns early keeps the relation if it
  held. When the recomputed \<open>maxScroll\<close> is 0, \<open>scrollPercent\<close> is 0 and the left
  position of the thumb is 0, whatever \<open>scrollLeft\<close> is.
\<close>

theorem updateScrollInfo_percent:
  "((targetElement s \<noteq> None \<and> contentElement s \<noteq> None) \<or> percent_invariant s
      \<longrightarrow> percent_invariant (updateScrollInfo s))
   \<and> (targetElement s \<noteq> None \<and> contentElement s \<noteq> None \<longrightarrow>
        emitted (updateScrollInfo s) =
          emitted s @ [Scroll \<lparr>si_scrollLeft = scrollLeft (updateScrollInfo s),
                                si_maxScroll = maxScroll (updateScrollInfo s),
                                si_scrollPercent = scrollPercent (updateScrollInfo s)\<rparr>])
   \<and> (percent_invariant (updateScrollInfo s) \<and> maxScroll (updateScrollInfo s) = 0 \<longrightarrow>
        scrollPercent (updateScrollInfo s) = 0
        \<and> left (thumbStyle (updateScrollInfo s)) = 0
        \<and> left (thumbStyle ((updateScrollInfo s)\<lparr>scrollLeft := a\<rparr>)) = 0)"
proof -
  let ?u = "updateScrollInfo s"
  have resolved: "percent_invariant ?u \<and> emitted ?u =
      emitted s @ [Scroll \<lparr>si_scrollLeft = scrollLeft ?u, si_maxScroll = maxScroll ?u,
                            si_scrollPercent = scrollPercent ?u\<rparr>]"
    if "targetElement s \<noteq> None \<and> contentElement s \<noteq> None"
  proof -
    from that obtain t c where "targetElement s = Some t" and "contentElement s = Some c"
      by blast
    then show ?thesis
      by (simp add: updateScrollInfo_resolved percent_invariant_def)
  qed
  have early: "percent_invariant ?u"
    if "percent_invariant s" and "\<not> (targetElement s \<noteq> None \<and> contentElement s \<noteq> None)"
    using that by (simp add: updateScrollInfo_unresolved)
  have at_zero: "scrollPercent ?u = 0 \<and> left (thumbStyle ?u) = 0
      \<and> left (thumbStyle (?u\<lparr>scrollLeft := a\<rparr>)) = 0"
    if "percent_invariant ?u" and "maxScroll ?u = 0"
    using that by (simp add: percent_invariant_def thumbStyle_left thumbPosition_def)
  from resolved early at_zero show ?thesis by blast
qed

text \<open>
  The content has shrunk to the width of the viewport, which is still scrolled to 200:
  the recomputation gives \<open>maxScroll = 0\<close>, \<open>scrollPercent = 0\<close> and the thumb at 0.
\<close>

theorem updateScrollInfo_percent_witness:
  "targetElement fitting_component \<noteq> None \<and> contentElement fitting_component \<noteq> None
   \<and> percent_invariant (updateScrollInfo fitting_component)
   \<and> scrollLeft (updateScrollInfo fitting_component) = 200
   \<and> maxScroll (updateScrollInfo fitting_component) = 0
   \<and> scrollPercent (updateScrollInfo fitting_component) = 0
   \<and> left (thumbStyle (updateScrollInfo fitting_component)) = 0"
proof -
  have r: "targetElement fitting_component \<noteq> None" "contentElement fitting_component \<noteq> None"
    by (simp_all add: example_defs)
  have v: "scrollLeft (updateScrollInfo fitting_component) = 200"
    "maxScroll (updateScrollInfo fitting_component) = 0"
    by (simp_all add: updateScrollInfo_def invalidate_def emit_def Let_def example_defs)
  from updateScrollInfo_percent [of fitting_component 200] r v
  show ?thesis by simp
qed

text \<open>
  The same relation, and a \<open>maxScroll\<close> that is not negative, hold in every state the
  component reaches: only \<open>updateScrollInfo\<close> writes the three refs.
\<close>

lemma scroll_state_emit [simp]: "scroll_state (emit n s) = scroll_state s"
  by (simp add: scroll_state_def emit_def)

lemma scroll_state_preventDefault [simp]: "scroll_state (preventDefault e s) = scroll_state s"
  by (simp add: scroll_state_def preventDefault_def)

lemma scroll_state_listeners [simp]: "scroll_state (s\<lparr>listeners := ls\<rparr>) = scroll_state s"
  by (simp add: scroll_state_def)

lemma scroll_state_invalidate [simp]: "scroll_state (invalidate b s) = scroll_state s"
  by (simp add: scroll_state_def invalidate_def)

lemma scroll_state_thumbStyle_value [simp]:
  "scroll_state (snd (thumbStyle_value s)) = scroll_state s"
  by (simp add: scroll_state_def)

lemma scroll_state_scrollToPosition [simp]:
  "scroll_state (scrollToPosition n s) = scroll_state s"
  by (simp add: scroll_state_def scrollToPosition_def Let_def split: option.splits)

lemma scroll_state_scrollToEnd [simp]: "scroll_state (scrollToEnd s) = scroll_state s"
  by (simp add: scrollToEnd_def)

lemma scroll_state_getElement [simp]:
  "scroll_state (snd (getElement sel s)) = scroll_state s"
  by (simp add: getElement_def scroll_state_def emit_def
      split: selector.splits outcome.splits option.splits)

lemma scroll_state_setupScrollListener [simp]:
  "scroll_state (setupScrollListener s) = scroll_state s"
  by (simp add: setupScrollListener_def split: option.splits)

lemma scroll_state_setupResizeObserver [simp]:
  "scroll_state (setupResizeObserver s) = scroll_state s"
  by (simp add: setupResizeObserver_def scroll_state_def split: option.splits)

lemma scroll_state_handleScrollbarClick [simp]:
  "scroll_state (handleScrollbarClick e s) = scroll_state s"
  by (simp add: handleScrollbarClick_def Let_def case_prod_beta split: option.splits)

lemma scroll_state_startDragging [simp]: "scroll_state (startDragging x s) = scroll_state s"
  by (simp add: startDragging_def scroll_state_def)

lemma scroll_state_handleThumbMouseDown [simp]:
  "scroll_state (handleThumbMouseDown e s) = scroll_state s"
  by (simp add: handleThumbMouseDown_def Let_def)

lemma scroll_state_handleThumbTouchStart:
  "handleThumbTouchStart e s = Inr s' \<Longrightarrow> scroll_state s' = scroll_state s"
  by (auto simp: handleThumbTouchStart_def Let_def split: if_splits list.splits)

lemma scroll_state_stopDragging [simp]: "scroll_state (stopDragging s) = scroll_state s"
  by (simp add: stopDragging_def scroll_state_def)

lemma scroll_state_handleMouseUp [simp]: "scroll_state (handleMouseUp s) = scroll_state s"
  by (simp add: handleMouseUp_def Let_def)

lemma scroll_state_handleTouchEnd [simp]: "scroll_state (handleTouchEnd s) = scroll_state s"
  by (simp add: handleTouchEnd_def Let_def)

lemma scroll_state_handleKeyDown [simp]: "scroll_state (handleKeyDown e s) = scroll_state s"
  by (simp add: handleKeyDown_def Let_def)

lemma scroll_state_cleanup [simp]: "scroll_state (cleanup s) = scroll_state s"
  by (subst cleanup_frame) (simp add: scroll_state_def)

lemma scroll_state_onMounted [simp]: "scroll_state (onMounted s) = scroll_state s"
  by (simp add: onMounted_def)

lemma updateDragPosition_ok:
  assumes "scroll_state_ok (scroll_state s)"
  shows "scroll_state_ok (scroll_state (updateDragPosition x s))"
proof (cases "customScrollbarRef s")
  case None
  with assms show ?thesis by (simp add: updateDragPosition_def)
next
  case (Some bar)
  from assms have "scroll_state_ok (scroll_state (scrollToPosition n (snd (thumbStyle_value s))))"
    for n
    by simp
  then show ?thesis
    using Some by (simp add: updateDragPosition_def Let_def case_prod_beta updateScrollInfo_ok)
qed

lemma initializeTarget_ok:
  assumes "scroll_state_ok (scroll_state s)"
  shows "scroll_state_ok (scroll_state (initializeTarget s))"
proof -
  obtain t s1 where g1: "getElement (targetSelector (props s)) s = (t, s1)"
    by (cases "getElement (targetSelector (props s)) s")
  define s2 where "s2 = (invalidate (t \<noteq> targetElement s1) s1)\<lparr>targetElement := t\<rparr>"
  obtain c s3 where g2: "getElement (contentSelector (props s2)) s2 = (c, s3)"
    by (cases "getElement (contentSelector (props s2)) s2")
  define s4 where "s4 = (invalidate (c \<noteq> contentElement s3) s3)\<lparr>contentElement := c\<rparr>"
  have "scroll_state s1 = scroll_state s"
    using scroll_state_getElement [of "targetSelector (props s)" s] g1 by simp
  moreover have "scroll_state (u\<lparr>targetElement := t\<rparr>) = scroll_state u" for u
    by (simp add: scroll_state_def)
  ultimately have "scroll_state s2 = scroll_state s"
    by (simp add: s2_def)
  moreover have "scroll_state s3 = scroll_state s2"
    using scroll_state_getElement [of "contentSelector (props s2)" s2] g2 by simp
  moreover have "scroll_state (u\<lparr>contentElement := c\<rparr>) = scroll_state u" for u
    by (simp add: scroll_state_def)
  ultimately have eq4: "scroll_state s4 = scroll_state s"
    by (simp add: s4_def)
  have failed: "scroll_state (emit n (s4\<lparr>console := k\<rparr>)) = scroll_state s" for n k
    using eq4 by (simp add: scroll_state_def emit_def)
  have "scroll_state_ok (scroll_state (setupResizeObserver (setupScrollListener s4)))"
    using assms eq4 by simp
  then have "scroll_state_ok
      (scroll_state (updateScrollInfo (setupResizeObserver (setupScrollListener s4))))"
    by (rule updateScrollInfo_ok)
  moreover have "scroll_state (emit Ready (u\<lparr>isVisible := True\<rparr>)) = scroll_state u" for u
    by (simp add: scroll_state_def emit_def)
  ultimately have ready: "scroll_state_ok (scroll_state
      (emit Ready
         ((updateScrollInfo (setupResizeObserver (setupScrollListener s4)))
            \<lparr>isVisible := True\<rparr>)))"
    by simp
  have "initializeTarget s =
      (if targetElement s4 = None \<or> contentElement s4 = None
       then emit (Error TargetOrContentNotFound)
              (s4\<lparr>console := console s4 @ [ConsoleError TargetOrContentNotFound]\<rparr>)
       else emit Ready
              ((updateScrollInfo (setupResizeObserver (setupScrollListener s4)))
                 \<lparr>isVisible := True\<rparr>))"
    by (simp only: initializeTarget_def Let_def g1 g2 [unfolded s2_def] prod.case s4_def)
  with failed ready assms show ?thesis
    by (simp del: scroll_state_emit)
qed

lemma reachable_scroll_state_ok: "reachable s \<Longrightarrow> scroll_state_ok (scroll_state s)"
proof (induction rule: reachable.induct)
  case (created p pg qs)
  show ?case
    by (simp add: initial_component_def scroll_state_def)
next
  case (rendered s)
  then show ?case by (simp add: render_def)
next
  case (refs_bound s bar thumb)
  moreover have "scroll_state (u\<lparr>customScrollbarRef := bar, customScrollbarThumbRef := thumb\<rparr>)
      = scroll_state u" for u
    by (simp add: scroll_state_def)
  ultimately show ?case by (simp add: bindTemplateRefs_def)
next
  case (page_changed s pg qs)
  then show ?case by (simp add: scroll_state_def)
next
  case (props_changed s p)
  moreover have "scroll_state (u\<lparr>props := p\<rparr>) = scroll_state u" for u
    by (simp add: scroll_state_def)
  ultimately show ?case by (simp add: updateProps_def)
next
  case (scroll_signal s)
  then show ?case by (simp add: throttledHandleScroll_def updateScrollInfo_ok)
next
  case (resize_signal s)
  then show ?case by (simp add: resizeObserverCallback_def updateScrollInfo_ok)
next
  case (touch_start s te s')
  then show ?case
    using scroll_state_handleThumbTouchStart [of te s s'] by simp
next
  case (mouse_move s me)
  then show ?case by (simp add: handleMouseMove_def updateDragPosition_ok)
next
  case (touch_move s te s')
  then have "scroll_state_ok (scroll_state (preventDefault e (updateDragPosition x s)))" for e x
    by (simp add: updateDragPosition_ok)
  with touch_move show ?case
    by (auto simp: handleTouchMove_def split: if_splits list.splits)
next
  case (initialized s)
  then show ?case by (simp add: initializeTarget_ok)
next
  case (exposed_updateScrollInfo s)
  then show ?case by (simp add: updateScrollInfo_ok)
qed (simp_all add: onUnmounted_def)

lemma reachable_invariants:
  "reachable s \<Longrightarrow> 0 \<le> maxScroll s \<and> percent_invariant s"
  using reachable_scroll_state_ok [of s] by (simp add: scroll_state_ok_iff)

subsection \<open>Recomputation during a drag\<close>

text \<open>
  C8, as amended. While \<open>isDragging\<close> is true, the throttled scroll handler changes
  nothing and emits nothing. The resize observer's callback has no such test: it is
  \<open>updateScrollInfo\<close>, and with both elements resolved it recomputes the scroll state
  and emits a \<open>scroll\<close> notification, dragging or not.
\<close>

theorem drag_gates_scroll_handler_only:
  assumes "isDragging s"
  shows "throttledHandleScroll s = s
    \<and> resizeObserverCallback s = updateScrollInfo s
    \<and> (targetElement s \<noteq> None \<and> contentElement s \<noteq> None \<longrightarrow>
         emitted (resizeObserverCallback s) =
           emitted s @ [Scroll \<lparr>si_scrollLeft = scrollLeft (resizeObserverCallback s),
                                 si_maxScroll = maxScroll (resizeObserverCallback s),
                                 si_scrollPercent = scrollPercent (resizeObserverCallback s)\<rparr>])"
  using assms
  by (auto simp: throttledHandleScroll_def resizeObserverCallback_def updateScrollInfo_def
      invalidate_def emit_def Let_def)

text \<open>During the drag, after the content grew from 1500 to 1700.\<close>

theorem drag_gates_scroll_handler_only_witness:
  "isDragging resized_dragging_component
   \<and> throttledHandleScroll resized_dragging_component = resized_dragging_component
   \<and> resizeObserverCallback resized_dragging_component
       = updateScrollInfo resized_dragging_component"
proof -
  have d: "isDragging resized_dragging_component"
    by (simp add: example_defs)
  from drag_gates_scroll_handler_only [OF d] d show ?thesis by simp
qed

text \<open>
  C8 as stated fails there: the drag is active, and the resize callback moves
  \<open>maxScroll\<close> from 1000 to 1200 and emits a \<open>scroll\<close> notification.
\<close>

theorem resize_recomputes_during_drag_counterexample:
  "isDragging resized_dragging_component
   \<and> maxScroll resized_dragging_component = 1000
   \<and> maxScroll (resizeObserverCallback resized_dragging_component) = 1200
   \<and> emitted (resizeObserverCallback resized_dragging_component) =
       emitted resized_dragging_component
         @ [Scroll \<lparr>si_scrollLeft = 350, si_maxScroll = 1200, si_scrollPercent = 175 / 6\<rparr>]"
  by (simp add: resizeObserverCallback_def updateScrollInfo_def invalidate_def emit_def Let_def
      example_defs)

subsection \<open>The disabled component\<close>

text \<open>
  C9. When \<open>disabled\<close> is set, the click handler, the mouse-down and touch-start
  handlers and the keyboard handler return the state they were given: no offset is
  assigned, no ref changes, nothing is emitted, no listener is added and no default is
  prevented.
\<close>

theorem disabled_inert:
  assumes "disabled (props s)"
  shows "handleScrollbarClick me s = s
    \<and> handleThumbMouseDown me s = s
    \<and> handleThumbTouchStart te s = Inr s
    \<and> handleKeyDown ke s = s"
  using assms
  by (simp add: handleScrollbarClick_def handleThumbMouseDown_def handleThumbTouchStart_def
      handleKeyDown_def split: option.splits)

theorem disabled_inert_witness:
  "disabled (props disabled_component)
   \<and> handleScrollbarClick (MouseEvent 160 2) disabled_component = disabled_component
   \<and> handleThumbMouseDown (MouseEvent 60 3) disabled_component = disabled_component
   \<and> handleThumbTouchStart (TouchEvent [60]) disabled_component = Inr disabled_component
   \<and> handleKeyDown (KeyboardEvent ''ArrowRight'') disabled_component = disabled_component"
proof -
  have d: "disabled (props disabled_component)"
    by (simp add: example_defs)
  from disabled_inert [OF d] d show ?thesis by simp
qed

text \<open>The same key on the enabled component scrolls by the step and is notified.\<close>

lemma enabled_key_scrolls:
  "el_scrollLeft (page (handleKeyDown (KeyboardEvent ''ArrowRight'') example_component) 0) = 250
   \<and> emitted (handleKeyDown (KeyboardEvent ''ArrowRight'') example_component)
       = [Ready, Keydown (KeyboardEvent ''ArrowRight'')]"
  by (simp add: handleKeyDown_def scrollToPosition_def clampedPosition_def set_scrollLeft_def
      emit_def preventDefault_def example_defs)

subsection \<open>Resolving an element\<close>

text \<open>
  C10. For a string selector that matches nothing, \<open>getElement\<close> returns \<open>null\<close> and
  emits an \<open>error\<close> notification. For a resolver function that returns \<open>null\<close> or
  \<open>undefined\<close> it returns \<open>null\<close> and changes nothing, so emits nothing. For a resolver
  function, an \<open>error\<close> notification is emitted exactly when the call throws, and then
  it carries what was thrown.
\<close>

theorem getElement_failure_asymmetry:
  "(querySelector s q = Returns None \<longrightarrow>
      fst (getElement (SelString q) s) = None
      \<and> emitted (snd (getElement (SelString q) s)) = emitted s @ [Error (ElementNotFound q)])
   \<and> getElement (SelFunction (Returns None)) s = (None, s)
   \<and> fst (getElement (SelFunction (Throws err)) s) = None
   \<and> emitted (snd (getElement (SelFunction (Throws err)) s)) = emitted s @ [Error err]
   \<and> (emitted (snd (getElement (SelFunction call) s)) \<noteq> emitted s \<longleftrightarrow> (\<exists>e. call = Throws e))"
  by (auto simp: getElement_def emit_def split: outcome.splits option.splits)

theorem getElement_failure_asymmetry_witness:
  "querySelector example_component ''#missing'' = Returns None
   \<and> fst (getElement (SelString ''#missing'') example_component) = None
   \<and> emitted (snd (getElement (SelString ''#missing'') example_component))
       = [Ready, Error (ElementNotFound ''#missing'')]
   \<and> getElement (SelFunction (Returns None)) example_component = (None, example_component)
   \<and> emitted (snd (getElement (SelFunction (Throws (Thrown ''boom''))) example_component))
       = [Ready, Error (Thrown ''boom'')]"
proof -
  have q: "querySelector example_component ''#missing'' = Returns None"
    and e: "emitted example_component = [Ready]"
    by (simp_all add: example_defs)
  from getElement_failure_asymmetry
    [of example_component "''#missing''" "Thrown ''boom''" "Returns None"] q e
  show ?thesis by simp
qed

end
